theory Spec2Isabelle
  imports Main
begin

section \<open>The chat controller of \<open>src/components/ChatBot.tsx\<close>\<close>

text \<open>
  The component keeps five pieces of React state and changes them from three handlers:
  \<open>handleSendMessage\<close>, \<open>handleSubmit\<close> and \<open>clearChat\<close>. The embedding passes the
  state explicitly. \<open>handleSendMessage\<close> is an \<open>async\<close> function that suspends at
  \<open>await fetch(...)\<close> and at \<open>await response.json()\<close>; it reads and writes no state
  between the two, so the embedding cuts it once, into the part that runs when the
  intent arrives and the part that runs when the network call has settled.

  A JavaScript string is modelled as a \<open>string\<close>, one \<open>char\<close> per code unit, which covers
  the code units up to U+00FF (all the literals of the component are in that range).
  \<open>Date.now()\<close> is a natural number of milliseconds that the caller supplies, and so is
  the instant of \<open>new Date()\<close>.
\<close>

subsection \<open>Data model\<close>

datatype role = User | Assistant

text \<open>\<open>interface Message\<close>. The field \<open>id\<close> is spelled \<open>id_msg\<close>, since \<open>id\<close> is the
  identity function of HOL.\<close>

record Message =
  id_msg :: string
  content :: string
  role :: role
  timestamp :: nat

text \<open>\<open>interface DbStats\<close>. The numbers are only stored and shown, never computed with.\<close>

record DbStats =
  total_records :: int
  types :: "string list"
  related_records :: "int option"
  latest_update :: "string option"

text \<open>The \<open>useState\<close> cells of the component, in the order of their declaration.\<close>

record ChatState =
  messages :: "Message list"
  input :: string
  isLoading :: bool
  dbStats :: "DbStats option"
  isTyping :: bool

definition initialState :: ChatState where
  "initialState =
     \<lparr>messages = [], input = [], isLoading = False, dbStats = None, isTyping = False\<rparr>"

subsection \<open>String operations used by the handler\<close>

text \<open>The white space and line terminators that \<open>String.prototype.trim\<close> strips, as far
  as they lie below U+0100: TAB, LF, VT, FF, CR, SPACE and NO-BREAK SPACE.\<close>

definition isWhiteSpace :: "char \<Rightarrow> bool" where
  "isWhiteSpace c \<longleftrightarrow>
     c \<in> set [CHR 0x09, CHR 0x0A, CHR 0x0B, CHR 0x0C, CHR 0x0D, CHR 0x20, CHR 0xA0]"

definition trim :: "string \<Rightarrow> string" where
  "trim s = rev (dropWhile isWhiteSpace (rev (dropWhile isWhiteSpace s)))"

fun startsWith :: "string \<Rightarrow> string \<Rightarrow> bool" where
  "startsWith s [] = True"
| "startsWith [] (c # t) = False"
| "startsWith (d # s) (c # t) = (d = c \<and> startsWith s t)"

text \<open>\<open>s.includes(t)\<close>: the code units of \<open>t\<close> occur in \<open>s\<close>, contiguously and compared
  exactly. (The name \<open>includes\<close> is a keyword of Isabelle.)\<close>

fun includes_str :: "string \<Rightarrow> string \<Rightarrow> bool" where
  "includes_str [] t = (t = [])"
| "includes_str (d # s) t = (startsWith (d # s) t \<or> includes_str s t)"

text \<open>\<open>Number.prototype.toString\<close> on a non-negative integer: its decimal digits.\<close>

definition digit :: "nat \<Rightarrow> char" where
  "digit d = char_of (48 + d)"

fun toString :: "nat \<Rightarrow> string" where
  "toString n = (if n < 10 then [digit n] else toString (n div 10) @ [digit (n mod 10)])"

declare toString.simps [simp del]

subsection \<open>The network boundary\<close>

text \<open>The body handed to \<open>JSON.stringify\<close> for \<open>POST /api/chat\<close>. A history entry is the
  pair that the object literal \<open>{ content, role }\<close> keeps of a message.\<close>

record RequestBody =
  message :: string
  history :: "(string \<times> role) list"

text \<open>What a \<open>throw\<close> or a rejected promise carries: an instance of \<open>Error\<close> with its
  \<open>message\<close>, or any other value.\<close>

datatype thrown = Error string | NonError

text \<open>The parsed body of a successful reply, as the handler reads it: \<open>data.response\<close>
  and \<open>data.data\<close>, the latter \<open>None\<close> when the field is missing (or falsy).\<close>

record Reply =
  response :: string
  data :: "DbStats option"

text \<open>The \<open>Response\<close> object of \<open>fetch\<close>: \<open>ok\<close>, the text of the body that the server
  sent, and what \<open>await response.json()\<close> settles to (a thrown value when the body
  does not parse, or when reading \<open>data.response\<close> throws).\<close>

record Response =
  ok :: bool
  body :: string
  json :: "thrown + Reply"

datatype settled = Rejected thrown | Fulfilled Response

subsection \<open>\<open>handleSendMessage\<close>, up to the \<open>await\<close>\<close>

text \<open>The result is the state after the synchronous part together with the network
  call that it issued, if any. \<open>now\<close> is the reading of \<open>Date.now()\<close>, \<open>date\<close> the
  instant of \<open>new Date()\<close>. The closure reads \<open>messages\<close> and \<open>isLoading\<close> of the render
  it belongs to; the appends go through functional updates.\<close>

definition handleSendMessage ::
    "nat \<Rightarrow> nat \<Rightarrow> string \<Rightarrow> ChatState \<Rightarrow> ChatState \<times> RequestBody option" where
  "handleSendMessage now date text s =
     (if trim text = [] \<or> isLoading s then (s, None)
      else
        let userMessage =
              \<lparr>id_msg = toString now, content = text, role = User, timestamp = date\<rparr>
        in (s\<lparr>messages := messages s @ [userMessage],
              input := [],
              isLoading := True,
              isTyping := True\<rparr>,
            Some \<lparr>message = text,
                  history = map (\<lambda>m. (content m, role m)) (messages s)\<rparr>))"

definition handleSubmit :: "nat \<Rightarrow> nat \<Rightarrow> ChatState \<Rightarrow> ChatState \<times> RequestBody option" where
  "handleSubmit now date s = handleSendMessage now date (input s) s"

subsection \<open>\<open>handleSendMessage\<close>, after the \<open>await\<close>\<close>

text \<open>The \<open>try\<close> block up to the parsed reply: \<open>Inl\<close> is control passing to \<open>catch\<close>.\<close>

definition tryBlock :: "settled \<Rightarrow> thrown + Reply" where
  "tryBlock r =
     (case r of
        Rejected e \<Rightarrow> Inl e
      | Fulfilled resp \<Rightarrow>
          if \<not> ok resp then Inl (Error ''Failed to get response'')
          else json resp)"

definition errorMessage :: "thrown \<Rightarrow> string" where
  "errorMessage error = (case error of Error m \<Rightarrow> m | NonError \<Rightarrow> ''Error desconocido'')"

definition leadIn :: string where
  "leadIn = ''Lo siento, hubo un error procesando tu mensaje: ''"

definition userFriendlyMessage :: "string \<Rightarrow> string" where
  "userFriendlyMessage msg =
     leadIn @
     (if includes_str msg ''model_not_found'' then
        ''Hay un problema con el modelo de AI. Por favor, contacta al administrador.''
      else if includes_str msg ''rate_limit'' then
        ''Estamos procesando demasiadas peticiones. Por favor, espera un momento y vuelve a intentar.''
      else if includes_str msg ''invalid_request_error'' then
        ''La solicitud no es v'' @ [CHR 0xE1] @ ''lida. Por favor, intenta reformular tu pregunta.''
      else ''Por favor, intenta de nuevo en unos momentos.'')"

text \<open>The continuation that runs once the network call has settled with \<open>r\<close>: the rest of
  the \<open>try\<close> block or the \<open>catch\<close> block, then \<open>finally\<close>.\<close>

definition handleSendMessage_settled :: "nat \<Rightarrow> nat \<Rightarrow> settled \<Rightarrow> ChatState \<Rightarrow> ChatState" where
  "handleSendMessage_settled now date r s =
     (let s' =
        (case tryBlock r of
           Inr d \<Rightarrow>
             let assistantMessage =
                   \<lparr>id_msg = toString (now + 1), content = response d,
                    role = Assistant, timestamp = date\<rparr>;
                 s1 = s\<lparr>messages := messages s @ [assistantMessage]\<rparr>
             in (case data d of Some stats \<Rightarrow> s1\<lparr>dbStats := Some stats\<rparr> | None \<Rightarrow> s1)
         | Inl error \<Rightarrow>
             s\<lparr>messages := messages s @
                  [\<lparr>id_msg = toString now,
                    content = userFriendlyMessage (errorMessage error),
                    role = Assistant, timestamp = date\<rparr>]\<rparr>)
      in s'\<lparr>isLoading := False, isTyping := False\<rparr>)"

subsection \<open>\<open>clearChat\<close>\<close>

definition clearChat :: "ChatState \<Rightarrow> ChatState" where
  "clearChat s = s\<lparr>messages := []\<rparr>"

subsection \<open>The session: intents and settling network calls\<close>

text \<open>
  A session is the React state together with the network calls that were issued and
  have not settled yet. Every event is handled by the closures of the latest render:
  React commits the updates of one event handler before it dispatches the next event.
  \<open>Settled k now date r\<close> is the \<open>k\<close>-th call in flight settling with \<open>r\<close>; it is not
  enabled when there is no such call.
\<close>

record Session =
  ui :: ChatState
  inFlight :: "RequestBody list"

definition initialSession :: Session where
  "initialSession = \<lparr>ui = initialState, inFlight = []\<rparr>"

datatype Event =
    Change string
  | Submit nat nat
  | SelectSuggestion nat nat string
  | Clear
  | Settled nat nat nat settled

definition issue :: "ChatState \<times> RequestBody option \<Rightarrow> Session \<Rightarrow> Session" where
  "issue res ses =
     (case snd res of
        None \<Rightarrow> ses\<lparr>ui := fst res\<rparr>
      | Some b \<Rightarrow> \<lparr>ui = fst res, inFlight = inFlight ses @ [b]\<rparr>)"

fun step :: "Event \<Rightarrow> Session \<Rightarrow> Session" where
  "step (Change v) ses = ses\<lparr>ui := (ui ses)\<lparr>input := v\<rparr>\<rparr>"
| "step (Submit now date) ses = issue (handleSubmit now date (ui ses)) ses"
| "step (SelectSuggestion now date query) ses =
     issue (handleSendMessage now date query (ui ses)) ses"
| "step Clear ses = ses\<lparr>ui := clearChat (ui ses)\<rparr>"
| "step (Settled k now date r) ses =
     (if k < length (inFlight ses)
      then \<lparr>ui = handleSendMessage_settled now date r (ui ses),
            inFlight = take k (inFlight ses) @ drop (Suc k) (inFlight ses)\<rparr>
      else ses)"

fun run :: "Event list \<Rightarrow> Session \<Rightarrow> Session" where
  "run [] ses = ses"
| "run (e # es) ses = run es (step e ses)"

subsection \<open>The classifier as the specification words it\<close>

text \<open>
  The component has no classifier function of its own: the \<open>catch\<close> block picks one of
  four texts by an \<open>if\<close> chain. The definitions of this subsection follow the
  specification (section 4.3 and the design note on the ordered rule list), to be
  compared with \<open>userFriendlyMessage\<close> and \<open>errorMessage\<close> above, which follow the code.
\<close>

datatype Category = ModelUnavailable | RateLimited | InvalidRequest | Unknown

definition rules_spec :: "(string \<times> Category) list" where
  "rules_spec =
     [(''model_not_found'', ModelUnavailable),
      (''rate_limit'', RateLimited),
      (''invalid_request_error'', InvalidRequest)]"

fun firstMatch_spec :: "(string \<times> Category) list \<Rightarrow> string \<Rightarrow> Category" where
  "firstMatch_spec [] m = Unknown"
| "firstMatch_spec (r # rs) m =
     (if includes_str m (fst r) then snd r else firstMatch_spec rs m)"

definition classify_spec :: "string option \<Rightarrow> Category" where
  "classify_spec rawText =
     firstMatch_spec rules_spec
       (case rawText of None \<Rightarrow> ''unknown error'' | Some m \<Rightarrow> m)"

text \<open>The text that the \<open>catch\<close> block appends after the lead-in, per category.\<close>

fun template :: "Category \<Rightarrow> string" where
  "template ModelUnavailable =
     ''Hay un problema con el modelo de AI. Por favor, contacta al administrador.''"
| "template RateLimited =
     ''Estamos procesando demasiadas peticiones. Por favor, espera un momento y vuelve a intentar.''"
| "template InvalidRequest =
     ''La solicitud no es v'' @ [CHR 0xE1] @ ''lida. Por favor, intenta reformular tu pregunta.''"
| "template Unknown = ''Por favor, intenta de nuevo en unos momentos.''"

text \<open>The raw text of a thrown value: the \<open>message\<close> of an \<open>Error\<close>, absent otherwise.\<close>

definition rawText :: "thrown \<Rightarrow> string option" where
  "rawText error = (case error of Error m \<Rightarrow> Some m | NonError \<Rightarrow> None)"

text \<open>The text that the \<open>catch\<close> block examines when the call settles with \<open>r\<close>
  (the variable \<open>errorMessage\<close> of the handler), if control reaches \<open>catch\<close>.\<close>

definition classifierInput :: "settled \<Rightarrow> string option" where
  "classifierInput r =
     (case tryBlock r of Inl error \<Rightarrow> Some (errorMessage error) | Inr d \<Rightarrow> None)"

subsection \<open>Concrete scenarios\<close>

text \<open>A session in which one call is in flight: the first suggestion-style send of
  \<open>hola\<close> at clock reading 1000.\<close>

definition pendingSession :: Session where
  "pendingSession = step (SelectSuggestion 1000 1000 ''hola'') initialSession"

text \<open>A reply with status 429 whose body is the server's error text.\<close>

definition rateLimitResponse :: Response where
  "rateLimitResponse =
     \<lparr>ok = False, body = ''rate_limit exceeded'',
      json = Inl (Error ''Unexpected token r in JSON at position 0'')\<rparr>"

text \<open>The success reply of the specification's example, with and without \<open>data\<close>.\<close>

definition imageStats :: DbStats where
  "imageStats =
     \<lparr>total_records = 5, types = [''image''], related_records = None,
      latest_update = None\<rparr>"

definition statsReply :: Response where
  \<open>statsReply =
     \<lparr>ok = True, body = ''{"response":"hi","data":{"total_records":5,"types":["image"]}}'',
      json = Inr \<lparr>response = ''hi'', data = Some imageStats\<rparr>\<rparr>\<close>

text \<open>A summary that was tracked earlier, with more fields than the new one.\<close>

definition staleStats :: DbStats where
  "staleStats =
     \<lparr>total_records = 9, types = [''text'', ''audio''], related_records = Some 3,
      latest_update = Some ''2024-01-01''\<rparr>"

definition plainReply :: Response where
  \<open>plainReply =
     \<lparr>ok = True, body = ''{"response":"hi"}'',
      json = Inr \<lparr>response = ''hi'', data = None\<rparr>\<rparr>\<close>

text \<open>The session after the pending call was answered by the plain reply at clock
  reading 2000.\<close>

definition answeredSession :: Session where
  "answeredSession = step (Settled 0 2000 2000 (Fulfilled plainReply)) pendingSession"

text \<open>A reply with status 200 whose body is not JSON.\<close>

definition garbledReply :: Response where
  "garbledReply =
     \<lparr>ok = True, body = ''<html>'',
      json = Inl (Error ''Unexpected token < in JSON at position 0'')\<rparr>"

section \<open>Properties\<close>

subsection \<open>Facts about the string operations\<close>

lemma startsWith_iff: "startsWith s t \<longleftrightarrow> (\<exists>q. s = t @ q)"
  by (induction s t rule: startsWith.induct) auto

lemma includes_str_iff: "includes_str s t \<longleftrightarrow> (\<exists>p q. s = p @ t @ q)"
proof (induction s)
  case Nil
  then show ?case by auto
next
  case (Cons d s)
  show ?case
  proof
    assume "includes_str (d # s) t"
    then consider "startsWith (d # s) t" | "includes_str s t" by auto
    then show "\<exists>p q. d # s = p @ t @ q"
    proof cases
      case 1
      then obtain q where "d # s = t @ q" by (auto simp: startsWith_iff)
      then have "d # s = [] @ t @ q" by simp
      then show ?thesis by blast
    next
      case 2
      then obtain p q where "s = p @ t @ q" using Cons.IH by auto
      then have "d # s = (d # p) @ t @ q" by simp
      then show ?thesis by blast
    qed
  next
    assume "\<exists>p q. d # s = p @ t @ q"
    then obtain p q where pq: "d # s = p @ t @ q" by blast
    show "includes_str (d # s) t"
    proof (cases p)
      case Nil
      with pq have "startsWith (d # s) t" by (auto simp: startsWith_iff)
      then show ?thesis by simp
    next
      case (Cons a p')
      with pq have "s = p' @ t @ q" by simp
      then have "includes_str s t" using Cons.IH by blast
      then show ?thesis by simp
    qed
  qed
qed

lemma trim_empty_iff: "trim s = [] \<longleftrightarrow> (\<forall>c \<in> set s. isWhiteSpace c)"
proof
  assume "trim s = []"
  then have all: "\<forall>x \<in> set (dropWhile isWhiteSpace s). isWhiteSpace x"
    by (simp add: trim_def dropWhile_eq_Nil_conv)
  have "dropWhile isWhiteSpace s = []"
  proof (rule ccontr)
    assume ne: "dropWhile isWhiteSpace s \<noteq> []"
    then have "\<not> isWhiteSpace (hd (dropWhile isWhiteSpace s))" by (rule hd_dropWhile)
    moreover have "hd (dropWhile isWhiteSpace s) \<in> set (dropWhile isWhiteSpace s)"
      using ne by simp
    ultimately show False using all by blast
  qed
  then show "\<forall>c \<in> set s. isWhiteSpace c" by (simp add: dropWhile_eq_Nil_conv)
next
  assume "\<forall>c \<in> set s. isWhiteSpace c"
  then show "trim s = []" by (auto simp: trim_def dest: set_dropWhileD)
qed

lemma toString_1000: "toString 1000 = ''1000''"
  by code_simp

lemma toString_2000: "toString 2000 = ''2000''"
  by code_simp

lemma toString_2001: "toString 2001 = ''2001''"
  by code_simp

subsection \<open>Facts about the handlers\<close>

lemma handleSendMessage_dropped:
  "trim text = [] \<or> isLoading s \<Longrightarrow> handleSendMessage now date text s = (s, None)"
  by (simp add: handleSendMessage_def)

lemma handleSendMessage_accepted:
  "trim text \<noteq> [] \<Longrightarrow> \<not> isLoading s \<Longrightarrow>
   handleSendMessage now date text s =
     (s\<lparr>messages := messages s @
           [\<lparr>id_msg = toString now, content = text, role = User, timestamp = date\<rparr>],
        input := [], isLoading := True, isTyping := True\<rparr>,
      Some \<lparr>message = text, history = map (\<lambda>m. (content m, role m)) (messages s)\<rparr>)"
  by (simp add: handleSendMessage_def)

lemma issue_None: "issue (s, None) ses = ses\<lparr>ui := s\<rparr>"
  by (simp add: issue_def)

lemma issue_Some: "issue (s, Some b) ses = \<lparr>ui = s, inFlight = inFlight ses @ [b]\<rparr>"
  by (simp add: issue_def)

lemma settled_failure:
  "tryBlock r = Inl e \<Longrightarrow>
   handleSendMessage_settled now date r s =
     s\<lparr>messages := messages s @
          [\<lparr>id_msg = toString now, content = userFriendlyMessage (errorMessage e),
            role = Assistant, timestamp = date\<rparr>],
       isLoading := False, isTyping := False\<rparr>"
  by (simp add: handleSendMessage_settled_def)

lemma settled_success:
  "tryBlock r = Inr d \<Longrightarrow>
   handleSendMessage_settled now date r s =
     s\<lparr>messages := messages s @
          [\<lparr>id_msg = toString (now + 1), content = response d,
            role = Assistant, timestamp = date\<rparr>],
       dbStats := (case data d of Some stats \<Rightarrow> Some stats | None \<Rightarrow> dbStats s),
       isLoading := False, isTyping := False\<rparr>"
  by (simp add: handleSendMessage_settled_def split: option.splits)

lemma settled_flags:
  "isLoading (handleSendMessage_settled now date r s) = False \<and>
   isTyping (handleSendMessage_settled now date r s) = False"
  by (simp add: handleSendMessage_settled_def Let_def)

lemma settled_appends_assistant:
  "\<exists>m. messages (handleSendMessage_settled now date r s) = messages s @ [m] \<and>
       role m = Assistant"
  by (cases "tryBlock r") (simp_all add: settled_failure settled_success)

subsection \<open>The in-flight invariant\<close>

lemma inFlight_step:
  "length (inFlight ses) = (if isLoading (ui ses) then 1 else 0) \<Longrightarrow>
   length (inFlight (step e ses)) = (if isLoading (ui (step e ses)) then 1 else 0)"
  by (cases e)
     (auto simp: issue_def handleSubmit_def handleSendMessage_def Let_def clearChat_def
        settled_flags)

lemma inFlight_run:
  "length (inFlight ses) = (if isLoading (ui ses) then 1 else 0) \<Longrightarrow>
   length (inFlight (run es ses)) = (if isLoading (ui (run es ses)) then 1 else 0)"
proof (induction es arbitrary: ses)
  case Nil
  then show ?case by simp
next
  case (Cons e es)
  show ?case using Cons.IH [OF inFlight_step [OF Cons.prems]] by simp
qed

lemma inFlight_reachable:
  "length (inFlight (run es initialSession)) =
     (if isLoading (ui (run es initialSession)) then 1 else 0)"
  by (rule inFlight_run) (simp add: initialSession_def initialState_def)

lemma pendingSession_eval:
  "pendingSession =
     \<lparr>ui = \<lparr>messages = [\<lparr>id_msg = ''1000'', content = ''hola'', role = User,
                          timestamp = 1000\<rparr>],
            input = [], isLoading = True, dbStats = None, isTyping = True\<rparr>,
      inFlight = [\<lparr>message = ''hola'', history = []\<rparr>]\<rparr>"
  by (simp add: pendingSession_def initialSession_def initialState_def issue_def
      handleSendMessage_def trim_def isWhiteSpace_def toString_1000)

lemma pendingSession_reachable:
  "run [SelectSuggestion 1000 1000 ''hola''] initialSession = pendingSession"
  by (simp add: pendingSession_def)

lemma answeredSession_eval:
  "answeredSession =
     \<lparr>ui = \<lparr>messages =
              [\<lparr>id_msg = ''1000'', content = ''hola'', role = User, timestamp = 1000\<rparr>,
               \<lparr>id_msg = ''2001'', content = ''hi'', role = Assistant,
                timestamp = 2000\<rparr>],
            input = [], isLoading = False, dbStats = None, isTyping = False\<rparr>,
      inFlight = []\<rparr>"
  by (simp add: answeredSession_def pendingSession_eval handleSendMessage_settled_def
      tryBlock_def plainReply_def toString_2001)

subsection \<open>Facts about the classifier\<close>

lemma classify_spec_order:
  "classify_spec (Some m) =
     (if includes_str m ''model_not_found'' then ModelUnavailable
      else if includes_str m ''rate_limit'' then RateLimited
      else if includes_str m ''invalid_request_error'' then InvalidRequest
      else Unknown)"
  by (simp add: classify_spec_def rules_spec_def)

lemma classify_spec_examples:
  "classify_spec (Some ''model_not_found: x'') = ModelUnavailable"
  "classify_spec (Some ''rate_limit exceeded'') = RateLimited"
  "classify_spec (Some ''invalid_request_error: bad field'') = InvalidRequest"
  "classify_spec (Some ''boom'') = Unknown"
  "classify_spec None = Unknown"
  "classify_spec (Some ''RATE_LIMIT exceeded'') = Unknown"
  by (simp_all add: classify_spec_def rules_spec_def)

lemma classify_spec_substrings:
  "(classify_spec (Some m) = ModelUnavailable \<longleftrightarrow>
      (\<exists>p q. m = p @ ''model_not_found'' @ q)) \<and>
   (classify_spec (Some m) = RateLimited \<longleftrightarrow>
      \<not> (\<exists>p q. m = p @ ''model_not_found'' @ q) \<and> (\<exists>p q. m = p @ ''rate_limit'' @ q)) \<and>
   (classify_spec (Some m) = InvalidRequest \<longleftrightarrow>
      \<not> (\<exists>p q. m = p @ ''model_not_found'' @ q) \<and> \<not> (\<exists>p q. m = p @ ''rate_limit'' @ q) \<and>
      (\<exists>p q. m = p @ ''invalid_request_error'' @ q)) \<and>
   (classify_spec (Some m) = Unknown \<longleftrightarrow>
      \<not> (\<exists>p q. m = p @ ''model_not_found'' @ q) \<and> \<not> (\<exists>p q. m = p @ ''rate_limit'' @ q) \<and>
      \<not> (\<exists>p q. m = p @ ''invalid_request_error'' @ q))"
proof -
  have a: "(\<exists>p q. m = p @ ''model_not_found'' @ q) = includes_str m ''model_not_found''"
    by (rule includes_str_iff [symmetric])
  have b: "(\<exists>p q. m = p @ ''rate_limit'' @ q) = includes_str m ''rate_limit''"
    by (rule includes_str_iff [symmetric])
  have c: "(\<exists>p q. m = p @ ''invalid_request_error'' @ q) = includes_str m ''invalid_request_error''"
    by (rule includes_str_iff [symmetric])
  show ?thesis unfolding a b c classify_spec_order by simp
qed

lemma userFriendlyMessage_spec:
  "userFriendlyMessage (errorMessage e) = leadIn @ template (classify_spec (rawText e))"
  by (cases e)
     (simp_all add: userFriendlyMessage_def errorMessage_def classify_spec_def
        rawText_def rules_spec_def)

lemma template_inj: "template a = template b \<longleftrightarrow> a = b"
  by (cases a; cases b) simp_all

text \<open>What the \<open>catch\<close> block examines, per kind of failure: the message of the thrown
  \<open>Error\<close> when \<open>fetch\<close> rejects or the body of an ok reply cannot be read, and the
  fixed text of line 103 on a non-success status, for every reply.\<close>

lemma classifierInput_by_failure_kind:
  "classifierInput (Rejected (Error m)) = Some m \<and>
   classifierInput (Rejected NonError) = Some ''Error desconocido'' \<and>
   (ok resp \<and> json resp = Inl (Error m) \<longrightarrow> classifierInput (Fulfilled resp) = Some m) \<and>
   (ok resp \<and> json resp = Inl NonError \<longrightarrow>
      classifierInput (Fulfilled resp) = Some ''Error desconocido'') \<and>
   (\<not> ok resp \<longrightarrow>
      classifierInput (Fulfilled resp) = Some ''Failed to get response'' \<and>
      classify_spec (classifierInput (Fulfilled resp)) = Unknown) \<and>
   (classifierInput r = Some m \<longrightarrow>
      content (last (messages (handleSendMessage_settled now date r s))) =
        userFriendlyMessage m) \<and>
   (classifierInput r = None \<longleftrightarrow> (\<exists>d. tryBlock r = Inr d))"
proof -
  have sole: "classifierInput r = Some m \<longrightarrow>
      content (last (messages (handleSendMessage_settled now date r s))) =
        userFriendlyMessage m"
    by (cases "tryBlock r") (auto simp: classifierInput_def settled_failure)
  have none: "classifierInput r = None \<longleftrightarrow> (\<exists>d. tryBlock r = Inr d)"
    by (cases "tryBlock r") (simp_all add: classifierInput_def)
  have rest:
    "classifierInput (Rejected (Error m)) = Some m"
    "classifierInput (Rejected NonError) = Some ''Error desconocido''"
    "ok resp \<and> json resp = Inl (Error m) \<longrightarrow> classifierInput (Fulfilled resp) = Some m"
    "ok resp \<and> json resp = Inl NonError \<longrightarrow>
       classifierInput (Fulfilled resp) = Some ''Error desconocido''"
    "\<not> ok resp \<longrightarrow>
      classifierInput (Fulfilled resp) = Some ''Failed to get response'' \<and>
      classify_spec (classifierInput (Fulfilled resp)) = Unknown"
    by (simp_all add: classifierInput_def tryBlock_def errorMessage_def classify_spec_def
        rules_spec_def)
  from sole none rest show ?thesis by blast
qed

subsection \<open>The claims\<close>


text \<open>
  C1. A send while a call is pending is dropped: when \<open>isLoading\<close> holds, a submit or a
  suggestion with any text returns the state unchanged (messages, flags and database
  summary alike) and issues no network call; and in every session reachable from the
  initial one, at most one call is in flight.
\<close>

theorem pending_send_is_dropped:
  "(isLoading s \<longrightarrow>
      handleSendMessage now date userText s = (s, None) \<and>
      handleSubmit now date s = (s, None)) \<and>
   (isLoading (ui ses) \<longrightarrow>
      step (Submit now date) ses = ses \<and>
      step (SelectSuggestion now date userText) ses = ses) \<and>
   length (inFlight (run es initialSession)) \<le> 1"
proof -
  have "length (inFlight (run es initialSession)) \<le> 1"
    by (simp add: inFlight_reachable)
  then show ?thesis
    by (simp add: handleSubmit_def handleSendMessage_dropped issue_None)
qed

theorem pending_send_is_dropped_witness:
  "isLoading (ui pendingSession) \<and>
   handleSendMessage 2000 2000 ''otra'' (ui pendingSession) = (ui pendingSession, None) \<and>
   step (SelectSuggestion 2000 2000 ''otra'') pendingSession = pendingSession \<and>
   step (Submit 2000 2000) pendingSession = pendingSession \<and>
   length (inFlight pendingSession) \<le> 1"
  using pending_send_is_dropped
    [where s = "ui pendingSession" and ses = pendingSession and now = 2000 and date = 2000
       and userText = "''otra''" and es = "[SelectSuggestion 1000 1000 ''hola'']",
     unfolded pendingSession_reachable]
  by (simp add: pendingSession_eval issue_def)

text \<open>
  C2. Whatever a call settles with, the continuation clears \<open>isLoading\<close> and \<open>isTyping\<close>
  and appends one assistant-role message. For each kind of failure (a rejected
  \<open>fetch\<close>, a non-success status, a body that cannot be read) that message is the
  user-facing error text, so the failure ends in the conversation and the handler
  returns normally. In a session, settling the call in flight leaves none in flight.
\<close>

theorem finalization_always_runs:
  "isLoading (handleSendMessage_settled now date r s) = False \<and>
   isTyping (handleSendMessage_settled now date r s) = False \<and>
   (\<exists>m. messages (handleSendMessage_settled now date r s) = messages s @ [m] \<and>
        role m = Assistant) \<and>
   messages (handleSendMessage_settled now date (Rejected e) s) =
     messages s @ [\<lparr>id_msg = toString now, content = userFriendlyMessage (errorMessage e),
                     role = Assistant, timestamp = date\<rparr>] \<and>
   (\<not> ok resp \<longrightarrow>
      messages (handleSendMessage_settled now date (Fulfilled resp) s) =
        messages s @ [\<lparr>id_msg = toString now,
                        content = userFriendlyMessage ''Failed to get response'',
                        role = Assistant, timestamp = date\<rparr>]) \<and>
   (ok resp \<and> json resp = Inl e \<longrightarrow>
      messages (handleSendMessage_settled now date (Fulfilled resp) s) =
        messages s @ [\<lparr>id_msg = toString now,
                        content = userFriendlyMessage (errorMessage e),
                        role = Assistant, timestamp = date\<rparr>]) \<and>
   (k < length (inFlight (run es initialSession)) \<longrightarrow>
      \<not> isLoading (ui (step (Settled k now date r) (run es initialSession))) \<and>
      \<not> isTyping (ui (step (Settled k now date r) (run es initialSession))) \<and>
      inFlight (step (Settled k now date r) (run es initialSession)) = [])"
proof -
  have a: "messages (handleSendMessage_settled now date (Rejected e) s) =
     messages s @ [\<lparr>id_msg = toString now, content = userFriendlyMessage (errorMessage e),
                     role = Assistant, timestamp = date\<rparr>]"
    by (simp add: settled_failure [where e = e] tryBlock_def)
  have b: "\<not> ok resp \<longrightarrow>
      messages (handleSendMessage_settled now date (Fulfilled resp) s) =
        messages s @ [\<lparr>id_msg = toString now,
                        content = userFriendlyMessage ''Failed to get response'',
                        role = Assistant, timestamp = date\<rparr>]"
    by (simp add: settled_failure [where e = "Error ''Failed to get response''"]
        tryBlock_def errorMessage_def)
  have c: "ok resp \<and> json resp = Inl e \<longrightarrow>
      messages (handleSendMessage_settled now date (Fulfilled resp) s) =
        messages s @ [\<lparr>id_msg = toString now,
                        content = userFriendlyMessage (errorMessage e),
                        role = Assistant, timestamp = date\<rparr>]"
    by (simp add: settled_failure [where e = e] tryBlock_def)
  have d: "k < length (inFlight (run es initialSession)) \<longrightarrow>
      \<not> isLoading (ui (step (Settled k now date r) (run es initialSession))) \<and>
      \<not> isTyping (ui (step (Settled k now date r) (run es initialSession))) \<and>
      inFlight (step (Settled k now date r) (run es initialSession)) = []"
  proof
    assume k: "k < length (inFlight (run es initialSession))"
    have "length (inFlight (run es initialSession)) \<le> 1"
      by (simp add: inFlight_reachable)
    with k have "k = 0" and "length (inFlight (run es initialSession)) = 1" by simp_all
    then show "\<not> isLoading (ui (step (Settled k now date r) (run es initialSession))) \<and>
      \<not> isTyping (ui (step (Settled k now date r) (run es initialSession))) \<and>
      inFlight (step (Settled k now date r) (run es initialSession)) = []"
      by (simp add: settled_flags)
  qed
  from a b c d settled_flags [of now date r s] settled_appends_assistant [of now date r s]
  show ?thesis by blast
qed

theorem finalization_always_runs_witness:
  "\<not> ok rateLimitResponse \<and>
   ok garbledReply \<and>
   json garbledReply = Inl (Error ''Unexpected token < in JSON at position 0'') \<and>
   0 < length (inFlight pendingSession) \<and>
   step (Settled 0 2000 2000 (Fulfilled rateLimitResponse)) pendingSession =
     \<lparr>ui = \<lparr>messages =
              [\<lparr>id_msg = ''1000'', content = ''hola'', role = User, timestamp = 1000\<rparr>,
               \<lparr>id_msg = ''2000'',
                content = leadIn @ ''Por favor, intenta de nuevo en unos momentos.'',
                role = Assistant, timestamp = 2000\<rparr>],
            input = [], isLoading = False, dbStats = None, isTyping = False\<rparr>,
      inFlight = []\<rparr> \<and>
   messages (handleSendMessage_settled 2000 2000 (Fulfilled garbledReply) (ui pendingSession)) =
     [\<lparr>id_msg = ''1000'', content = ''hola'', role = User, timestamp = 1000\<rparr>,
      \<lparr>id_msg = ''2000'',
       content = leadIn @ ''Por favor, intenta de nuevo en unos momentos.'',
       role = Assistant, timestamp = 2000\<rparr>]"
  using finalization_always_runs
    [where now = 2000 and date = 2000 and r = "Fulfilled rateLimitResponse"
       and s = "ui pendingSession" and resp = garbledReply
       and e = "Error ''Unexpected token < in JSON at position 0''" and k = 0
       and es = "[SelectSuggestion 1000 1000 ''hola'']",
     unfolded pendingSession_reachable]
    finalization_always_runs
    [where now = 2000 and date = 2000 and r = "Fulfilled rateLimitResponse"
       and s = "ui pendingSession" and resp = rateLimitResponse
       and e = "Error ''Failed to fetch''" and k = 0
       and es = "[SelectSuggestion 1000 1000 ''hola'']",
     unfolded pendingSession_reachable]
  by (simp add: pendingSession_eval rateLimitResponse_def garbledReply_def
      handleSendMessage_settled_def tryBlock_def userFriendlyMessage_def errorMessage_def
      toString_2000)

text \<open>
  C3. The text chosen by the \<open>catch\<close> block is the lead-in followed by the template of
  the category that the specification's classifier assigns, and distinct categories
  have distinct templates. The classifier checks, in this order and by exact
  (case-sensitive) substring search, \<open>model_not_found\<close>, \<open>rate_limit\<close> and
  \<open>invalid_request_error\<close>, and answers Unknown otherwise and for an absent text. The
  five examples of the specification evaluate as stated.
\<close>

theorem classifier_fixed_priority:
  "userFriendlyMessage (errorMessage e) = leadIn @ template (classify_spec (rawText e)) \<and>
   (template a = template b \<longleftrightarrow> a = b) \<and>
   (classify_spec (Some m) = ModelUnavailable \<longleftrightarrow>
      (\<exists>p q. m = p @ ''model_not_found'' @ q)) \<and>
   (classify_spec (Some m) = RateLimited \<longleftrightarrow>
      \<not> (\<exists>p q. m = p @ ''model_not_found'' @ q) \<and> (\<exists>p q. m = p @ ''rate_limit'' @ q)) \<and>
   (classify_spec (Some m) = InvalidRequest \<longleftrightarrow>
      \<not> (\<exists>p q. m = p @ ''model_not_found'' @ q) \<and> \<not> (\<exists>p q. m = p @ ''rate_limit'' @ q) \<and>
      (\<exists>p q. m = p @ ''invalid_request_error'' @ q)) \<and>
   (classify_spec (Some m) = Unknown \<longleftrightarrow>
      \<not> (\<exists>p q. m = p @ ''model_not_found'' @ q) \<and> \<not> (\<exists>p q. m = p @ ''rate_limit'' @ q) \<and>
      \<not> (\<exists>p q. m = p @ ''invalid_request_error'' @ q)) \<and>
   classify_spec (Some ''model_not_found: x'') = ModelUnavailable \<and>
   classify_spec (Some ''rate_limit exceeded'') = RateLimited \<and>
   classify_spec (Some ''invalid_request_error: bad field'') = InvalidRequest \<and>
   classify_spec (Some ''boom'') = Unknown \<and>
   classify_spec None = Unknown \<and>
   classify_spec (Some ''RATE_LIMIT exceeded'') = Unknown"
  using classify_spec_substrings [of m]
  by (intro conjI userFriendlyMessage_spec template_inj classify_spec_examples) blast+

theorem classifier_fixed_priority_witness:
  "userFriendlyMessage (errorMessage (Error ''rate_limit then model_not_found'')) =
     leadIn @ ''Hay un problema con el modelo de AI. Por favor, contacta al administrador.'' \<and>
   classify_spec (Some ''rate_limit then model_not_found'') = ModelUnavailable \<and>
   (\<exists>p q. ''rate_limit then model_not_found'' = p @ ''rate_limit'' @ q) \<and>
   (template ModelUnavailable = template RateLimited) = False"
proof -
  have sub: "''rate_limit then model_not_found'' = [] @ ''rate_limit'' @ '' then model_not_found''"
    by simp
  have m: "classify_spec (Some ''rate_limit then model_not_found'') = ModelUnavailable"
    by (simp add: classify_spec_def rules_spec_def)
  have t: "template ModelUnavailable =
      ''Hay un problema con el modelo de AI. Por favor, contacta al administrador.''"
    by simp
  note inst = classifier_fixed_priority
      [where e = "Error ''rate_limit then model_not_found''" and a = ModelUnavailable
         and b = RateLimited and m = "''rate_limit then model_not_found''"]
  from inst have f1: "userFriendlyMessage (errorMessage (Error ''rate_limit then model_not_found'')) =
     leadIn @ template (classify_spec (rawText (Error ''rate_limit then model_not_found'')))"
    by (rule conjunct1)
  from inst have f2: "(template ModelUnavailable = template RateLimited) = (ModelUnavailable = RateLimited)"
    by (elim conjE)
  have r: "rawText (Error ''rate_limit then model_not_found'') = Some ''rate_limit then model_not_found''"
    by (simp add: rawText_def)
  have f3: "\<exists>p q. ''rate_limit then model_not_found'' = p @ ''rate_limit'' @ q"
    using sub by blast
  show ?thesis
    unfolding f1 f2 r m t using f3 by simp
qed

text \<open>
  C4, at a reply the server can send: a send is pending and the reply has a non-success
  status with the body \<open>rate_limit exceeded\<close>. The claim says that the server's error
  text is what gets classified, which would give the rate-limit message. The handler
  throws the fixed text \<open>Failed to get response\<close> without reading the reply, so the
  \<open>catch\<close> block examines that text and appends the catch-all message. The same text
  arriving as the message of a rejected \<open>fetch\<close> is classified as RateLimited.
\<close>

theorem server_error_text_not_classified:
  "\<not> ok rateLimitResponse \<and>
   body rateLimitResponse = ''rate_limit exceeded'' \<and>
   classify_spec (Some (body rateLimitResponse)) = RateLimited \<and>
   classifierInput (Fulfilled rateLimitResponse) \<noteq> Some (body rateLimitResponse) \<and>
   classifierInput (Fulfilled rateLimitResponse) = Some ''Failed to get response'' \<and>
   content (last (messages
     (handleSendMessage_settled 2000 2000 (Fulfilled rateLimitResponse) (ui pendingSession)))) =
     leadIn @ template Unknown \<and>
   content (last (messages
     (handleSendMessage_settled 2000 2000 (Rejected (Error ''rate_limit exceeded''))
        (ui pendingSession)))) =
     leadIn @ template RateLimited"
  by (simp add: rateLimitResponse_def classifierInput_def tryBlock_def errorMessage_def
      classify_spec_def rules_spec_def handleSendMessage_settled_def userFriendlyMessage_def)

text \<open>
  C5. A text that is empty after trimming (equivalently: all of whose code units are
  white space) makes the send a no-op: the state is returned unchanged, no network
  call is issued, and the session, with its calls in flight, stays as it is.
\<close>

theorem blank_input_is_noop:
  "(trim userText = [] \<longrightarrow>
      handleSendMessage now date userText s = (s, None) \<and>
      step (SelectSuggestion now date userText) ses = ses) \<and>
   (trim (input (ui ses)) = [] \<longrightarrow>
      handleSubmit now date (ui ses) = (ui ses, None) \<and> step (Submit now date) ses = ses) \<and>
   (trim userText = [] \<longleftrightarrow> (\<forall>c \<in> set userText. isWhiteSpace c))"
  by (simp add: handleSubmit_def handleSendMessage_dropped issue_None trim_empty_iff)

theorem blank_input_is_noop_witness:
  "trim ''   '' = [] \<and> trim (input (ui initialSession)) = [] \<and>
   handleSendMessage 1000 1000 ''   '' initialState = (initialState, None) \<and>
   step (SelectSuggestion 1000 1000 ''   '') initialSession = initialSession \<and>
   step (Submit 1000 1000) initialSession = initialSession \<and>
   isWhiteSpace (CHR '' '')"
proof -
  have a: "trim ''   '' = []" by (simp add: trim_def isWhiteSpace_def)
  have b: "trim (input (ui initialSession)) = []"
    by (simp add: initialSession_def initialState_def trim_def)
  note inst =
    blank_input_is_noop
      [where userText = "''   ''" and now = 1000 and date = 1000 and s = initialState
         and ses = initialSession]
  from inst a have c:
    "handleSendMessage 1000 1000 ''   '' initialState = (initialState, None) \<and>
     step (SelectSuggestion 1000 1000 ''   '') initialSession = initialSession"
    by blast
  from inst b have d: "step (Submit 1000 1000) initialSession = initialSession"
    by blast
  from inst a have e: "\<forall>c \<in> set ''   ''. isWhiteSpace c"
    by blast
  then have f: "isWhiteSpace (CHR '' '')" by simp
  from a b c d f show ?thesis by blast
qed

text \<open>
  C6. After a success whose reply carries \<open>data\<close>, the tracked summary is exactly that
  value, whatever was tracked before; after a success without \<open>data\<close> it is what it
  was. The specification's example: the summary \<open>{total_records: 5, types: [image]}\<close>
  is held after the first reply and still held after a second reply without \<open>data\<close>.
\<close>

theorem dbStats_replaced_wholesale:
  "(tryBlock r = Inr d \<and> data d = Some stats \<longrightarrow>
      dbStats (handleSendMessage_settled now date r s) = Some stats) \<and>
   (tryBlock r = Inr d \<and> data d = None \<longrightarrow>
      dbStats (handleSendMessage_settled now date r s) = dbStats s)"
  by (simp add: settled_success)

theorem dbStats_replaced_wholesale_witness:
  "tryBlock (Fulfilled statsReply) = Inr \<lparr>response = ''hi'', data = Some imageStats\<rparr> \<and>
   tryBlock (Fulfilled plainReply) = Inr \<lparr>response = ''hi'', data = None\<rparr> \<and>
   dbStats (handleSendMessage_settled 2000 2000 (Fulfilled statsReply)
              (initialState\<lparr>dbStats := Some staleStats\<rparr>)) =
     Some \<lparr>total_records = 5, types = [''image''], related_records = None,
           latest_update = None\<rparr> \<and>
   dbStats (handleSendMessage_settled 4000 4000 (Fulfilled plainReply)
              (handleSendMessage_settled 2000 2000 (Fulfilled statsReply)
                 (initialState\<lparr>dbStats := Some staleStats\<rparr>))) =
     Some \<lparr>total_records = 5, types = [''image''], related_records = None,
           latest_update = None\<rparr>"
proof -
  have a: "tryBlock (Fulfilled statsReply) = Inr \<lparr>response = ''hi'', data = Some imageStats\<rparr>"
    by (simp add: tryBlock_def statsReply_def)
  have b: "tryBlock (Fulfilled plainReply) = Inr \<lparr>response = ''hi'', data = None\<rparr>"
    by (simp add: tryBlock_def plainReply_def)
  show ?thesis
    using a b
      dbStats_replaced_wholesale
        [where r = "Fulfilled statsReply" and d = "\<lparr>response = ''hi'', data = Some imageStats\<rparr>"
           and stats = imageStats and now = 2000 and date = 2000
           and s = "initialState\<lparr>dbStats := Some staleStats\<rparr>"]
      dbStats_replaced_wholesale
        [where r = "Fulfilled plainReply" and d = "\<lparr>response = ''hi'', data = None\<rparr>"
           and now = 4000 and date = 4000
           and s = "handleSendMessage_settled 2000 2000 (Fulfilled statsReply)
                 (initialState\<lparr>dbStats := Some staleStats\<rparr>)"]
    by (simp add: imageStats_def)
qed

text \<open>
  C7. An accepted send of \<open>userText\<close> issues exactly one network call whose body is
  \<open>{message: userText, history: h}\<close>, where \<open>h\<close> lists the \<open>(content, role)\<close> pairs of the
  messages as they were before this cycle's user message was appended. Identifiers and
  timestamps are not part of an entry.
\<close>

theorem request_body_is_text_and_prior_history:
  "(trim userText \<noteq> [] \<and> \<not> isLoading s \<longrightarrow>
      snd (handleSendMessage now date userText s) =
        Some \<lparr>message = userText,
              history = map (\<lambda>m. (content m, role m)) (messages s)\<rparr> \<and>
      messages (fst (handleSendMessage now date userText s)) =
        messages s @
        [\<lparr>id_msg = toString now, content = userText, role = User, timestamp = date\<rparr>]) \<and>
   (snd (handleSendMessage now date userText s) = Some b \<longrightarrow>
      message b = userText \<and>
      map fst (history b) = map content (messages s) \<and>
      map snd (history b) = map role (messages s)) \<and>
   (trim userText \<noteq> [] \<and> \<not> isLoading (ui ses) \<longrightarrow>
      inFlight (step (SelectSuggestion now date userText) ses) =
        inFlight ses @
        [\<lparr>message = userText,
          history = map (\<lambda>m. (content m, role m)) (messages (ui ses))\<rparr>])"
  by (auto simp: handleSendMessage_def issue_def Let_def comp_def split: if_splits)

theorem request_body_is_text_and_prior_history_witness:
  "trim ''otra'' \<noteq> [] \<and> \<not> isLoading (ui answeredSession) \<and>
   messages (ui answeredSession) =
     [\<lparr>id_msg = ''1000'', content = ''hola'', role = User, timestamp = 1000\<rparr>,
      \<lparr>id_msg = ''2001'', content = ''hi'', role = Assistant, timestamp = 2000\<rparr>] \<and>
   snd (handleSendMessage 3000 3000 ''otra'' (ui answeredSession)) =
     Some \<lparr>message = ''otra'', history = [(''hola'', User), (''hi'', Assistant)]\<rparr> \<and>
   inFlight (step (SelectSuggestion 3000 3000 ''otra'') answeredSession) =
     [\<lparr>message = ''otra'', history = [(''hola'', User), (''hi'', Assistant)]\<rparr>]"
proof -
  have a: "trim ''otra'' \<noteq> []" by (simp add: trim_def isWhiteSpace_def)
  have b: "\<not> isLoading (ui answeredSession)" by (simp add: answeredSession_eval)
  note inst =
    request_body_is_text_and_prior_history
      [where userText = "''otra''" and s = "ui answeredSession" and ses = answeredSession
         and now = 3000 and date = 3000]
  from inst a b have c:
    "snd (handleSendMessage 3000 3000 ''otra'' (ui answeredSession)) =
       Some \<lparr>message = ''otra'',
             history = map (\<lambda>m. (content m, role m)) (messages (ui answeredSession))\<rparr>"
    by blast
  from inst a b have d:
    "inFlight (step (SelectSuggestion 3000 3000 ''otra'') answeredSession) =
       inFlight answeredSession @
       [\<lparr>message = ''otra'',
         history = map (\<lambda>m. (content m, role m)) (messages (ui answeredSession))\<rparr>]"
    by blast
  from a b c d show ?thesis by (simp add: answeredSession_eval)
qed

text \<open>
  C8. The clear intent empties the message sequence and leaves the tracked database
  summary exactly as it was: in every state, after \<open>clearChat\<close> the messages are the
  empty sequence and \<open>dbStats\<close> holds its prior value.
\<close>

theorem clearChat_resets_messages_keeps_stats:
  "messages (clearChat s) = [] \<and> dbStats (clearChat s) = dbStats s"
  by (simp add: clearChat_def)

text \<open>
  C9, at clock readings the browser can produce: the user's message is created at
  reading 1000 and \<open>fetch\<close> rejects while the clock still reads 1000. The session then
  holds two different messages with the same identifier.
\<close>

theorem error_message_reuses_user_id:
  "messages (ui (run [SelectSuggestion 1000 1000 ''hola'',
                      Settled 0 1000 1000 (Rejected (Error ''Failed to fetch''))]
                 initialSession)) =
     [\<lparr>id_msg = ''1000'', content = ''hola'', role = User, timestamp = 1000\<rparr>,
      \<lparr>id_msg = ''1000'', content = leadIn @ template Unknown, role = Assistant,
       timestamp = 1000\<rparr>] \<and>
   \<not> distinct (map id_msg (messages (ui (run [SelectSuggestion 1000 1000 ''hola'',
                      Settled 0 1000 1000 (Rejected (Error ''Failed to fetch''))]
                 initialSession))))"
proof -
  have "run [SelectSuggestion 1000 1000 ''hola'',
             Settled 0 1000 1000 (Rejected (Error ''Failed to fetch''))] initialSession =
        step (Settled 0 1000 1000 (Rejected (Error ''Failed to fetch''))) pendingSession"
    by (simp add: pendingSession_def)
  then show ?thesis
    by (simp add: pendingSession_eval handleSendMessage_settled_def tryBlock_def
        userFriendlyMessage_def errorMessage_def toString_1000)
qed

text \<open>
  C10. \<open>clearChat\<close> is not guarded by \<open>isLoading\<close>: in every session it empties the
  messages and leaves \<open>isLoading\<close>, \<open>isTyping\<close>, \<open>dbStats\<close> and the calls in flight as they
  are. When a call in flight settles after the clear, its assistant-role message is the
  only message of the conversation. One such execution: send \<open>hola\<close>, clear while the
  call is pending, then the reply \<open>hi\<close> arrives.
\<close>

theorem clear_while_pending_keeps_cycle:
  "messages (ui (step Clear ses)) = [] \<and>
   isLoading (ui (step Clear ses)) = isLoading (ui ses) \<and>
   isTyping (ui (step Clear ses)) = isTyping (ui ses) \<and>
   dbStats (ui (step Clear ses)) = dbStats (ui ses) \<and>
   inFlight (step Clear ses) = inFlight ses \<and>
   (k < length (inFlight ses) \<longrightarrow>
      (\<exists>m. messages (ui (step (Settled k now date r) (step Clear ses))) = [m] \<and>
           role m = Assistant)) \<and>
   isLoading (ui (run [SelectSuggestion 1000 1000 ''hola''] initialSession)) \<and>
   messages (ui (run [SelectSuggestion 1000 1000 ''hola'', Clear,
                      Settled 0 2000 2000 (Fulfilled plainReply)] initialSession)) =
     [\<lparr>id_msg = ''2001'', content = ''hi'', role = Assistant, timestamp = 2000\<rparr>]"
proof -
  have frame:
    "messages (ui (step Clear ses)) = []"
    "isLoading (ui (step Clear ses)) = isLoading (ui ses)"
    "isTyping (ui (step Clear ses)) = isTyping (ui ses)"
    "dbStats (ui (step Clear ses)) = dbStats (ui ses)"
    "inFlight (step Clear ses) = inFlight ses"
    by (simp_all add: clearChat_def)
  have late: "k < length (inFlight ses) \<longrightarrow>
      (\<exists>m. messages (ui (step (Settled k now date r) (step Clear ses))) = [m] \<and>
           role m = Assistant)"
    using settled_appends_assistant [of now date r "clearChat (ui ses)"]
    by (simp add: clearChat_def)
  have pend: "isLoading (ui (run [SelectSuggestion 1000 1000 ''hola''] initialSession))"
    unfolding pendingSession_reachable by (simp add: pendingSession_eval)
  have "run [SelectSuggestion 1000 1000 ''hola'', Clear,
             Settled 0 2000 2000 (Fulfilled plainReply)] initialSession =
        step (Settled 0 2000 2000 (Fulfilled plainReply)) (step Clear pendingSession)"
    by (simp add: pendingSession_def)
  then have exec:
    "messages (ui (run [SelectSuggestion 1000 1000 ''hola'', Clear,
                      Settled 0 2000 2000 (Fulfilled plainReply)] initialSession)) =
     [\<lparr>id_msg = ''2001'', content = ''hi'', role = Assistant, timestamp = 2000\<rparr>]"
    by (simp add: pendingSession_eval clearChat_def handleSendMessage_settled_def
        tryBlock_def plainReply_def toString_2001)
  from frame late pend exec show ?thesis by blast
qed

theorem clear_while_pending_keeps_cycle_witness:
  "0 < length (inFlight pendingSession) \<and> isLoading (ui pendingSession) \<and>
   isLoading (ui (step Clear pendingSession)) \<and>
   inFlight (step Clear pendingSession) = [\<lparr>message = ''hola'', history = []\<rparr>] \<and>
   (\<exists>m. messages (ui (step (Settled 0 2000 2000 (Rejected (Error ''Failed to fetch'')))
                          (step Clear pendingSession))) = [m] \<and>
        role m = Assistant)"
proof -
  have a: "0 < length (inFlight pendingSession)" by (simp add: pendingSession_eval)
  have b: "isLoading (ui pendingSession)" by (simp add: pendingSession_eval)
  have c: "inFlight pendingSession = [\<lparr>message = ''hola'', history = []\<rparr>]"
    by (simp add: pendingSession_eval)
  note inst =
    clear_while_pending_keeps_cycle
      [where ses = pendingSession and k = 0 and now = 2000 and date = 2000
         and r = "Rejected (Error ''Failed to fetch'')"]
  from inst a have d:
    "\<exists>m. messages (ui (step (Settled 0 2000 2000 (Rejected (Error ''Failed to fetch'')))
                          (step Clear pendingSession))) = [m] \<and>
        role m = Assistant"
    by blast
  from inst b have e: "isLoading (ui (step Clear pendingSession))" by blast
  from inst c have f: "inFlight (step Clear pendingSession) = [\<lparr>message = ''hola'', history = []\<rparr>]"
    by simp
  from a b d e f show ?thesis by blast
qed

end
